theory Spec2Isabelle
  imports Main "HOL-Library.Word"
begin

unbundle bit_operations_syntax

section \<open>Python values\<close>

text \<open>
  The script \<^verbatim>\<open>scripts/generate_manifest.py\<close> handles three kinds of data: the bytes of
  the snapshot file, the value that \<^verbatim>\<open>cbor2.load\<close> decodes from them, and the manifest
  dictionary it builds. Bytes are \<open>8 word\<close>; decoded values and manifest values are
  Python objects, modelled by \<open>pyval\<close>: \<^verbatim>\<open>None\<close>, \<^verbatim>\<open>bool\<close>, \<^verbatim>\<open>int\<close> (unbounded),
  \<^verbatim>\<open>str\<close>, \<^verbatim>\<open>bytes\<close>, \<^verbatim>\<open>list\<close> and \<^verbatim>\<open>dict\<close> (an association list in insertion
  order, its keys pairwise different). Strings are lists of 8-bit characters, so the
  model speaks about ASCII text. Floating-point numbers, CBOR tags and the other
  objects that \<^verbatim>\<open>cbor2\<close> can produce are not part of \<open>pyval\<close>.
\<close>

type_synonym byte = "8 word"

datatype pyval =
    PNone
  | PBool bool
  | PInt int
  | PStr string
  | PBytes "byte list"
  | PList "pyval list"
  | PDict "(pyval \<times> pyval) list"

text \<open>The exceptions that can leave \<^verbatim>\<open>generate_manifest\<close>.\<close>

datatype py_error = FileNotFoundError | AttributeError | TypeError

text \<open>Truth value of an object, as \<^verbatim>\<open>not x\<close> and \<^verbatim>\<open>x or y\<close> test it.\<close>

fun truthy :: "pyval \<Rightarrow> bool" where
  "truthy PNone = False"
| "truthy (PBool b) = b"
| "truthy (PInt i) = (i \<noteq> 0)"
| "truthy (PStr s) = (s \<noteq> [])"
| "truthy (PBytes bs) = (bs \<noteq> [])"
| "truthy (PList xs) = (xs \<noteq> [])"
| "truthy (PDict kvs) = (kvs \<noteq> [])"

text \<open>\<^verbatim>\<open>x or y\<close>: the first operand when it is true, the second otherwise.\<close>

definition py_or :: "pyval \<Rightarrow> pyval \<Rightarrow> pyval" where
  "py_or x y = (if truthy x then x else y)"

text \<open>
  \<^verbatim>\<open>x > 0\<close>: defined on \<^verbatim>\<open>int\<close> and on \<^verbatim>\<open>bool\<close> (a subclass of \<^verbatim>\<open>int\<close>); every
  other operand type of \<open>pyval\<close> raises \<^verbatim>\<open>TypeError\<close>.
\<close>

fun py_gt_zero :: "pyval \<Rightarrow> py_error + bool" where
  "py_gt_zero (PInt i) = Inr (0 < i)"
| "py_gt_zero (PBool b) = Inr b"
| "py_gt_zero _ = Inl TypeError"

text \<open>
  Dictionary lookup with an integer key \<open>k\<close>. Python compares keys with \<^verbatim>\<open>==\<close>, and
  \<^verbatim>\<open>False == 0\<close>, \<^verbatim>\<open>True == 1\<close>, so a boolean key can answer for 0 or 1.
\<close>

fun key_is :: "int \<Rightarrow> pyval \<Rightarrow> bool" where
  "key_is k (PInt i) = (i = k)"
| "key_is k (PBool b) = ((if b then 1 else 0) = k)"
| "key_is k _ = False"

fun dict_lookup :: "(pyval \<times> pyval) list \<Rightarrow> int \<Rightarrow> pyval option" where
  "dict_lookup [] k = None"
| "dict_lookup ((key, v) # kvs) k = (if key_is k key then Some v else dict_lookup kvs k)"

text \<open>\<^verbatim>\<open>d.get(k)\<close> and \<^verbatim>\<open>d.get(k, default)\<close>.\<close>

definition dict_get :: "(pyval \<times> pyval) list \<Rightarrow> int \<Rightarrow> pyval" where
  "dict_get d k = (case dict_lookup d k of None \<Rightarrow> PNone | Some v \<Rightarrow> v)"

definition dict_get_default :: "(pyval \<times> pyval) list \<Rightarrow> int \<Rightarrow> pyval \<Rightarrow> pyval" where
  "dict_get_default d k dflt = (case dict_lookup d k of None \<Rightarrow> dflt | Some v \<Rightarrow> v)"

subsection \<open>Strings\<close>

definition hexdigit :: "nat \<Rightarrow> char" where
  "hexdigit n = ''0123456789abcdef'' ! (n mod 16)"

definition hex_byte :: "byte \<Rightarrow> string" where
  "hex_byte b = [hexdigit (unat b div 16), hexdigit (unat b mod 16)]"

text \<open>\<^verbatim>\<open>bytes.hex()\<close>: two lowercase hexadecimal digits per byte.\<close>

definition bytes_hex :: "byte list \<Rightarrow> string" where
  "bytes_hex bs = concat (map hex_byte bs)"

text \<open>\<^verbatim>\<open>str.lower()\<close> on ASCII text.\<close>

definition lower_char :: "char \<Rightarrow> char" where
  "lower_char c =
     (let n = (of_char c :: nat) in if 65 \<le> n \<and> n \<le> 90 then char_of (n + 32) else c)"

definition lower :: "string \<Rightarrow> string" where
  "lower s = map lower_char s"

text \<open>\<^verbatim>\<open>s.split(sep)\<close> for a one-character separator: never an empty list.\<close>

fun split_on :: "char \<Rightarrow> string \<Rightarrow> string list" where
  "split_on sep [] = [[]]"
| "split_on sep (c # cs) =
     (if c = sep then [] # split_on sep cs
      else (case split_on sep cs of [] \<Rightarrow> [[c]] | p # ps \<Rightarrow> (c # p) # ps))"

text \<open>
  \<^verbatim>\<open>int(s)\<close> on an ASCII string: surrounding whitespace is stripped, one sign is
  allowed, then come decimal digits, where single underscores may separate digits.
  \<open>None\<close> stands for \<^verbatim>\<open>ValueError\<close>. (Recent interpreters also refuse more than 4300
  digits; a file name is far shorter.)
\<close>

definition is_space :: "char \<Rightarrow> bool" where
  "is_space c = ((of_char c :: nat) \<in> {9, 10, 11, 12, 13, 28, 29, 30, 31, 32})"

definition is_digit :: "char \<Rightarrow> bool" where
  "is_digit c = (48 \<le> (of_char c :: nat) \<and> (of_char c :: nat) \<le> 57)"

definition digit_val :: "char \<Rightarrow> nat" where
  "digit_val c = of_char c - 48"

definition strip :: "string \<Rightarrow> string" where
  "strip s = rev (dropWhile is_space (rev (dropWhile is_space s)))"

fun int_digits :: "nat \<Rightarrow> string \<Rightarrow> nat option" where
  "int_digits acc [] = Some acc"
| "int_digits acc [c] = (if is_digit c then Some (acc * 10 + digit_val c) else None)"
| "int_digits acc (c # d # ds) =
     (if is_digit c then int_digits (acc * 10 + digit_val c) (d # ds)
      else if c = CHR ''_'' \<and> is_digit d then int_digits (acc * 10 + digit_val d) ds
      else None)"

definition int_literal :: "string \<Rightarrow> nat option" where
  "int_literal s =
     (case s of [] \<Rightarrow> None
      | c # cs \<Rightarrow> if is_digit c then int_digits (digit_val c) cs else None)"

definition py_int :: "string \<Rightarrow> int option" where
  "py_int s =
     (case strip s of [] \<Rightarrow> None
      | c # cs \<Rightarrow>
          if c = CHR ''-'' then map_option (\<lambda>n. - int n) (int_literal cs)
          else if c = CHR ''+'' then map_option int (int_literal cs)
          else map_option int (int_literal (c # cs)))"

text \<open>
  \<^verbatim>\<open>x or d\<close> for an optional string or integer \<open>x\<close> and a default \<open>d\<close>: \<^verbatim>\<open>None\<close>,
  the empty string and 0 are all false.
\<close>

definition str_or :: "string option \<Rightarrow> string \<Rightarrow> string" where
  "str_or x d = (case x of None \<Rightarrow> d | Some s \<Rightarrow> if s = [] then d else s)"

definition int_or :: "int option \<Rightarrow> int \<Rightarrow> int" where
  "int_or x d = (case x of None \<Rightarrow> d | Some i \<Rightarrow> if i = 0 then d else i)"

section \<open>The integrity hash\<close>

subsection \<open>SHA-256\<close>

text \<open>
  \<^verbatim>\<open>hashlib.sha256\<close> is the SHA-256 function of FIPS 180-4, written out here on
  32-bit words so that the digest in the manifest is a computed value.
\<close>

type_synonym w32 = "32 word"

type_synonym sha_state = "w32 \<times> w32 \<times> w32 \<times> w32 \<times> w32 \<times> w32 \<times> w32 \<times> w32"

definition rotr :: "nat \<Rightarrow> w32 \<Rightarrow> w32" where
  "rotr n x = word_rotr n x"

definition Ch :: "w32 \<Rightarrow> w32 \<Rightarrow> w32 \<Rightarrow> w32" where
  "Ch x y z = (x AND y) XOR (NOT x AND z)"

definition Maj :: "w32 \<Rightarrow> w32 \<Rightarrow> w32 \<Rightarrow> w32" where
  "Maj x y z = (x AND y) XOR (x AND z) XOR (y AND z)"

definition big_sigma0 :: "w32 \<Rightarrow> w32" where
  "big_sigma0 x = rotr 2 x XOR rotr 13 x XOR rotr 22 x"

definition big_sigma1 :: "w32 \<Rightarrow> w32" where
  "big_sigma1 x = rotr 6 x XOR rotr 11 x XOR rotr 25 x"

definition small_sigma0 :: "w32 \<Rightarrow> w32" where
  "small_sigma0 x = rotr 7 x XOR rotr 18 x XOR drop_bit 3 x"

definition small_sigma1 :: "w32 \<Rightarrow> w32" where
  "small_sigma1 x = rotr 17 x XOR rotr 19 x XOR drop_bit 10 x"

text \<open>The round constants of the standard, eight to a row.\<close>

definition sha_K :: "w32 list" where
  "sha_K = concat
    [[0x428a2f98, 0x71374491, 0xb5c0fbcf, 0xe9b5dba5, 0x3956c25b, 0x59f111f1, 0x923f82a4, 0xab1c5ed5],
     [0xd807aa98, 0x12835b01, 0x243185be, 0x550c7dc3, 0x72be5d74, 0x80deb1fe, 0x9bdc06a7, 0xc19bf174],
     [0xe49b69c1, 0xefbe4786, 0x0fc19dc6, 0x240ca1cc, 0x2de92c6f, 0x4a7484aa, 0x5cb0a9dc, 0x76f988da],
     [0x983e5152, 0xa831c66d, 0xb00327c8, 0xbf597fc7, 0xc6e00bf3, 0xd5a79147, 0x06ca6351, 0x14292967],
     [0x27b70a85, 0x2e1b2138, 0x4d2c6dfc, 0x53380d13, 0x650a7354, 0x766a0abb, 0x81c2c92e, 0x92722c85],
     [0xa2bfe8a1, 0xa81a664b, 0xc24b8b70, 0xc76c51a3, 0xd192e819, 0xd6990624, 0xf40e3585, 0x106aa070],
     [0x19a4c116, 0x1e376c08, 0x2748774c, 0x34b0bcb5, 0x391c0cb3, 0x4ed8aa4a, 0x5b9cca4f, 0x682e6ff3],
     [0x748f82ee, 0x78a5636f, 0x84c87814, 0x8cc70208, 0x90befffa, 0xa4506ceb, 0xbef9a3f7, 0xc67178f2]]"

definition sha_init :: sha_state where
  "sha_init =
    (0x6a09e667, 0xbb67ae85, 0x3c6ef372, 0xa54ff53a, 0x510e527f, 0x9b05688c, 0x1f83d9ab, 0x5be0cd19)"

text \<open>The message schedule: 16 words of the block, extended by \<open>n\<close> further words.\<close>

fun schedule :: "nat \<Rightarrow> w32 list \<Rightarrow> w32 list" where
  "schedule 0 w = w"
| "schedule (Suc n) w =
     (let t = length w
      in schedule n (w @ [small_sigma1 (w ! (t - 2)) + w ! (t - 7)
                          + small_sigma0 (w ! (t - 15)) + w ! (t - 16)]))"

fun sha_round :: "sha_state \<Rightarrow> w32 \<times> w32 \<Rightarrow> sha_state" where
  "sha_round (a, b, c, d, e, f, g, h) (k, w) =
     (let t1 = h + big_sigma1 e + Ch e f g + k + w;
          t2 = big_sigma0 a + Maj a b c
      in (t1 + t2, a, b, c, d + t1, e, f, g))"

fun add_state :: "sha_state \<Rightarrow> sha_state \<Rightarrow> sha_state" where
  "add_state (a, b, c, d, e, f, g, h) (a', b', c', d', e', f', g', h') =
     (a + a', b + b', c + c', d + d', e + e', f + f', g + g', h + h')"

definition be32 :: "byte list \<Rightarrow> w32" where
  "be32 bs = foldl (\<lambda>acc b. push_bit 8 acc OR ucast b) 0 bs"

definition block_words :: "byte list \<Rightarrow> w32 list" where
  "block_words block = map (\<lambda>i. be32 (take 4 (drop (4 * i) block))) [0..<16]"

definition compress :: "sha_state \<Rightarrow> byte list \<Rightarrow> sha_state" where
  "compress s block =
     add_state s (foldl sha_round s (zip sha_K (schedule 48 (block_words block))))"

text \<open>
  Padding: a 1 bit, zero bits up to 56 modulo 64 bytes, and the bit length of the
  message as a 64-bit big-endian number.
\<close>

fun be_bytes :: "nat \<Rightarrow> nat \<Rightarrow> byte list" where
  "be_bytes 0 n = []"
| "be_bytes (Suc k) n = be_bytes k (n div 256) @ [of_nat n]"

definition be64 :: "nat \<Rightarrow> byte list" where
  "be64 n = be_bytes 8 n"

definition sha_pad :: "byte list \<Rightarrow> byte list" where
  "sha_pad m =
     m @ [0x80] @ replicate ((119 - length m mod 64) mod 64) 0 @ be64 (8 * length m)"

fun blocks64 :: "nat \<Rightarrow> byte list \<Rightarrow> byte list list" where
  "blocks64 0 bs = []"
| "blocks64 (Suc n) bs = take 64 bs # blocks64 n (drop 64 bs)"

definition word_bytes :: "w32 \<Rightarrow> byte list" where
  "word_bytes w = [ucast (drop_bit 24 w), ucast (drop_bit 16 w), ucast (drop_bit 8 w), ucast w]"

fun state_bytes :: "sha_state \<Rightarrow> byte list" where
  "state_bytes (a, b, c, d, e, f, g, h) =
     word_bytes a @ word_bytes b @ word_bytes c @ word_bytes d
     @ word_bytes e @ word_bytes f @ word_bytes g @ word_bytes h"

definition sha256 :: "byte list \<Rightarrow> byte list" where
  "sha256 m =
     (let p = sha_pad m
      in state_bytes (foldl compress sha_init (blocks64 (length p div 64) p)))"

subsection \<open>The streaming reader\<close>

text \<open>
  A \<^verbatim>\<open>hashlib\<close> hash object, seen through its interface: \<^verbatim>\<open>update\<close> appends to the
  message (\<^verbatim>\<open>m.update(a); m.update(b)\<close> is \<^verbatim>\<open>m.update(a + b)\<close>) and \<^verbatim>\<open>hexdigest\<close> is
  the hexadecimal digest of what was appended so far.
\<close>

datatype hasher = Hasher "byte list"

definition hasher_new :: hasher where
  "hasher_new = Hasher []"

fun hasher_update :: "hasher \<Rightarrow> byte list \<Rightarrow> hasher" where
  "hasher_update (Hasher m) chunk = Hasher (m @ chunk)"

fun hexdigest :: "hasher \<Rightarrow> string" where
  "hexdigest (Hasher m) = bytes_hex (sha256 m)"

text \<open>
  \<^verbatim>\<open>f.read(n)\<close> on a binary file opened for reading, whose unread bytes are \<open>rest\<close>:
  the chunk read and the bytes that remain. A negative \<open>n\<close> reads to the end.
\<close>

definition f_read :: "int \<Rightarrow> byte list \<Rightarrow> byte list \<times> byte list" where
  "f_read n rest = (if n < 0 then (rest, []) else (take (nat n) rest, drop (nat n) rest))"

text \<open>The \<^verbatim>\<open>while True\<close> loop of \<^verbatim>\<open>compute_sha256\<close>: it stops at the first empty chunk.\<close>

function read_loop :: "int \<Rightarrow> hasher \<Rightarrow> byte list \<Rightarrow> hasher" where
  "read_loop chunk_size h rest =
     (case f_read chunk_size rest of
        (chunk, rest') \<Rightarrow>
          if chunk = [] then h else read_loop chunk_size (hasher_update h chunk) rest')"
  by pat_completeness auto
termination
  by (relation "measure (\<lambda>(chunk_size, h, rest). length rest)")
     (auto simp: f_read_def split: if_splits)

declare read_loop.simps [simp del]

definition compute_sha256 :: "byte list \<Rightarrow> int \<Rightarrow> string" where
  "compute_sha256 content chunk_size = hexdigest (read_loop chunk_size hasher_new content)"

section \<open>Reading the header\<close>

text \<open>
  The dictionary that \<^verbatim>\<open>parse_cbor_header\<close> returns, with its five keys. The era
  and the block height are handed on as decoded, whatever their type; the block
  hash is the string produced by \<^verbatim>\<open>.hex()\<close>.
\<close>

record parsed_header =
  hdr_version :: pyval
  hdr_era :: pyval
  hdr_block_height :: pyval
  hdr_block_hash :: string
  hdr_governance_section_present :: bool

text \<open>
  \<^verbatim>\<open>x.hex()\<close>: among the objects of \<open>pyval\<close> only \<^verbatim>\<open>bytes\<close> has this method; on every
  other one the attribute lookup raises \<^verbatim>\<open>AttributeError\<close>.
\<close>

fun py_hex :: "pyval \<Rightarrow> py_error + string" where
  "py_hex (PBytes bs) = Inr (bytes_hex bs)"
| "py_hex _ = Inl AttributeError"

text \<open>
  \<^verbatim>\<open>(a or 0) > 0 or (b or 0) > 0\<close>: the right comparison is evaluated only when the
  left one is false.
\<close>

definition governance_present_of :: "pyval \<Rightarrow> pyval \<Rightarrow> py_error + bool" where
  "governance_present_of declared_gov_actions declared_param_sets =
     (case py_gt_zero (py_or declared_gov_actions (PInt 0)) of
        Inl e \<Rightarrow> Inl e
      | Inr True \<Rightarrow> Inr True
      | Inr False \<Rightarrow> py_gt_zero (py_or declared_param_sets (PInt 0)))"

text \<open>
  Lines 60 to 91 of \<^verbatim>\<open>parse_cbor_header\<close>: what happens to the decoded value \<open>data\<close>.
  \<open>Inr None\<close> is the return value \<^verbatim>\<open>None\<close>, \<open>Inl\<close> an exception that nothing catches.
\<close>

definition parse_loaded :: "pyval \<Rightarrow> py_error + parsed_header option" where
  "parse_loaded data =
     (case data of
        PList xs \<Rightarrow>
          if length xs < 2 then Inr None
          else
            let version = xs ! 0; header = xs ! 1
            in (case header of
                  PDict h \<Rightarrow>
                    let era = dict_get h 0;
                        block_height = dict_get h 1;
                        block_hash_bytes = dict_get h 2;
                        declared_gov_actions = dict_get_default h 4 (PInt 0);
                        declared_param_sets = dict_get_default h 5 (PInt 0)
                    in if \<not> truthy era \<or> block_height = PNone \<or> \<not> truthy block_hash_bytes
                       then Inr None
                       else (case py_hex block_hash_bytes of
                               Inl e \<Rightarrow> Inl e
                             | Inr block_hash \<Rightarrow>
                                 (case governance_present_of declared_gov_actions declared_param_sets of
                                    Inl e \<Rightarrow> Inl e
                                  | Inr governance_present \<Rightarrow>
                                      Inr (Some \<lparr>hdr_version = version,
                                                 hdr_era = era,
                                                 hdr_block_height = block_height,
                                                 hdr_block_hash = block_hash,
                                                 hdr_governance_section_present = governance_present\<rparr>)))
                | _ \<Rightarrow> Inr None)
      | _ \<Rightarrow> Inr None)"

subsection \<open>A decoder for concrete files\<close>

text \<open>
  The definitions of this development take the decoder as a parameter. To run them
  on the bytes of a concrete file, \<open>cbor_load\<close> decodes the first data item of a
  byte string as RFC 8949 lays it out and as \<^verbatim>\<open>cbor2.load\<close> returns it: unsigned and
  negative integers, byte strings, ASCII text strings, arrays, maps with scalar
  keys, \<^verbatim>\<open>false\<close>, \<^verbatim>\<open>true\<close> and \<^verbatim>\<open>null\<close>, all of definite length. Bytes after the
  first item are ignored, as \<^verbatim>\<open>cbor2.load\<close> does. It is used below only on inputs
  of that fragment and on truncated ones, where \<open>None\<close> is the exception of
  \<^verbatim>\<open>cbor2\<close>.
\<close>

definition be_nat :: "byte list \<Rightarrow> nat" where
  "be_nat bs = foldl (\<lambda>acc b. acc * 256 + unat b) 0 bs"

definition cbor_argument :: "nat \<Rightarrow> byte list \<Rightarrow> (nat \<times> byte list) option" where
  "cbor_argument ai bs =
     (if ai < 24 then Some (ai, bs)
      else if ai > 27 then None
      else let k = (if ai = 24 then 1 else if ai = 25 then 2 else if ai = 26 then 4 else 8)
           in if length bs < k then None else Some (be_nat (take k bs), drop k bs))"

fun hashable :: "pyval \<Rightarrow> bool" where
  "hashable (PList xs) = False"
| "hashable (PDict kvs) = False"
| "hashable _ = True"

fun py_key_eq :: "pyval \<Rightarrow> pyval \<Rightarrow> bool" where
  "py_key_eq (PInt i) (PBool b) = (i = (if b then 1 else 0))"
| "py_key_eq (PBool b) (PInt i) = (i = (if b then 1 else 0))"
| "py_key_eq x y = (x = y)"

text \<open>\<^verbatim>\<open>d[k] = v\<close>: an equal key keeps its place and takes the new value.\<close>

fun dict_set :: "(pyval \<times> pyval) list \<Rightarrow> pyval \<Rightarrow> pyval \<Rightarrow> (pyval \<times> pyval) list" where
  "dict_set [] k v = [(k, v)]"
| "dict_set ((k', v') # d) k v =
     (if py_key_eq k' k then (k', v) # d else (k', v') # dict_set d k v)"

definition dict_of_pairs :: "(pyval \<times> pyval) list \<Rightarrow> (pyval \<times> pyval) list" where
  "dict_of_pairs kvs = foldl (\<lambda>d (k, v). dict_set d k v) [] kvs"

definition ascii_text :: "byte list \<Rightarrow> string" where
  "ascii_text bs = map (\<lambda>b. char_of (unat b)) bs"

text \<open>An item that contains no other item: major types 0 to 3 and the simple values.\<close>

definition cbor_scalar :: "nat \<Rightarrow> nat \<Rightarrow> byte list \<Rightarrow> (pyval \<times> byte list) option" where
  "cbor_scalar major ai bs =
     (if major = 7
      then (if ai = 20 then Some (PBool False, bs)
            else if ai = 21 then Some (PBool True, bs)
            else if ai = 22 then Some (PNone, bs)
            else None)
      else (case cbor_argument ai bs of
              None \<Rightarrow> None
            | Some (n, rest) \<Rightarrow>
                if major = 0 then Some (PInt (int n), rest)
                else if major = 1 then Some (PInt (- 1 - int n), rest)
                else if major = 2
                then (if length rest < n then None
                      else Some (PBytes (take n rest), drop n rest))
                else if major = 3
                then (if length rest < n \<or> \<not> list_all (\<lambda>c. c < 128) (take n rest) then None
                      else Some (PStr (ascii_text (take n rest)), drop n rest))
                else None))"

definition make_dict :: "(pyval \<times> pyval) list \<Rightarrow> pyval option" where
  "make_dict kvs =
     (if list_all (\<lambda>(k, v). hashable k) kvs then Some (PDict (dict_of_pairs kvs)) else None)"

text \<open>
  One data item; \<open>fuel\<close> bounds the nesting depth, and every level of nesting costs
  at least one byte, so the length of the input is enough.
\<close>

fun cbor_item :: "nat \<Rightarrow> byte list \<Rightarrow> (pyval \<times> byte list) option"
  and cbor_items :: "nat \<Rightarrow> nat \<Rightarrow> byte list \<Rightarrow> (pyval list \<times> byte list) option"
  and cbor_pairs :: "nat \<Rightarrow> nat \<Rightarrow> byte list \<Rightarrow> ((pyval \<times> pyval) list \<times> byte list) option"
where
  "cbor_item 0 bs = None"
| "cbor_item (Suc fuel) [] = None"
| "cbor_item (Suc fuel) (b # bs) =
     (if unat b div 32 = 4
      then (case cbor_argument (unat b mod 32) bs of
              None \<Rightarrow> None
            | Some (n, rest) \<Rightarrow>
                (case cbor_items fuel n rest of
                   None \<Rightarrow> None
                 | Some (xs, rest') \<Rightarrow> Some (PList xs, rest')))
      else if unat b div 32 = 5
      then (case cbor_argument (unat b mod 32) bs of
              None \<Rightarrow> None
            | Some (n, rest) \<Rightarrow>
                (case cbor_pairs fuel n rest of
                   None \<Rightarrow> None
                 | Some (kvs, rest') \<Rightarrow> map_option (\<lambda>d. (d, rest')) (make_dict kvs)))
      else cbor_scalar (unat b div 32) (unat b mod 32) bs)"
| "cbor_items fuel 0 bs = Some ([], bs)"
| "cbor_items fuel (Suc n) bs =
     (case cbor_item fuel bs of
        None \<Rightarrow> None
      | Some (x, rest) \<Rightarrow>
          (case cbor_items fuel n rest of
             None \<Rightarrow> None
           | Some (xs, rest') \<Rightarrow> Some (x # xs, rest')))"
| "cbor_pairs fuel 0 bs = Some ([], bs)"
| "cbor_pairs fuel (Suc n) bs =
     (case cbor_item fuel bs of
        None \<Rightarrow> None
      | Some (k, rest) \<Rightarrow>
          (case cbor_item fuel rest of
             None \<Rightarrow> None
           | Some (v, rest') \<Rightarrow>
               (case cbor_pairs fuel n rest' of
                  None \<Rightarrow> None
                | Some (kvs, rest'') \<Rightarrow> Some ((k, v) # kvs, rest''))))"

definition cbor_load :: "byte list \<Rightarrow> pyval option" where
  "cbor_load bs = map_option fst (cbor_item (length bs) bs)"

text \<open>
  \<^verbatim>\<open>parse_cbor_header\<close>. The decoder \<^verbatim>\<open>cbor2.load\<close> is a parameter \<open>load\<close>: it maps the
  bytes of the file to the decoded value, or to \<open>None\<close> when it raises, which the
  \<^verbatim>\<open>except Exception\<close> clause turns into the return value \<^verbatim>\<open>None\<close>.
\<close>

definition parse_cbor_header ::
  "(byte list \<Rightarrow> pyval option) \<Rightarrow> byte list \<Rightarrow> int \<Rightarrow> py_error + parsed_header option" where
  "parse_cbor_header load content size_bytes =
     (if size_bytes > 64 * 1024 * 1024 then Inr None
      else (case load content of
              None \<Rightarrow> Inr None
            | Some data \<Rightarrow> parse_loaded data))"

section \<open>Metadata from the file name\<close>

definition is_hex_char :: "char \<Rightarrow> bool" where
  "is_hex_char c = (c \<in> set ''0123456789abcdefABCDEF'')"

text \<open>
  \<^verbatim>\<open>derive_from_filename\<close>, applied to \<^verbatim>\<open>snapshot_path.name\<close>, the last component of
  the path. A \<^verbatim>\<open>ValueError\<close> of \<^verbatim>\<open>int\<close> is caught and gives \<^verbatim>\<open>(None, None)\<close>.
\<close>

definition derive_from_filename :: "string \<Rightarrow> int option \<times> string option" where
  "derive_from_filename name =
     (let parts = split_on CHR ''.'' name
      in if length parts \<ge> 3 \<and> lower (last parts) = ''cbor''
         then (case py_int (parts ! 0) of
                 None \<Rightarrow> (None, None)
               | Some slot \<Rightarrow>
                   let hash_hex = parts ! 1
                   in if list_all is_hex_char hash_hex
                      then (Some slot, Some (lower hash_hex))
                      else (None, None))
         else (None, None))"

section \<open>The manifest\<close>

text \<open>
  \<^verbatim>\<open>datetime.now(timezone.utc)\<close> is an input of the model, and
  \<^verbatim>\<open>strftime("%Y-%m-%dT%H:%M:%SZ")\<close> prints it with zero-padded decimal fields.
\<close>

record datetime =
  dt_year :: nat
  dt_month :: nat
  dt_day :: nat
  dt_hour :: nat
  dt_minute :: nat
  dt_second :: nat

definition digit_char :: "nat \<Rightarrow> char" where
  "digit_char n = ''0123456789'' ! (n mod 10)"

fun dec_digits :: "nat \<Rightarrow> string" where
  "dec_digits n = (if n < 10 then [digit_char n] else dec_digits (n div 10) @ [digit_char n])"

declare dec_digits.simps [simp del]

definition zero_pad :: "nat \<Rightarrow> nat \<Rightarrow> string" where
  "zero_pad w n = replicate (w - length (dec_digits n)) CHR ''0'' @ dec_digits n"

definition strftime :: "datetime \<Rightarrow> string" where
  "strftime t =
     zero_pad 4 (dt_year t) @ ''-'' @ zero_pad 2 (dt_month t) @ ''-'' @ zero_pad 2 (dt_day t)
     @ ''T'' @ zero_pad 2 (dt_hour t) @ '':'' @ zero_pad 2 (dt_minute t) @ '':''
     @ zero_pad 2 (dt_second t) @ ''Z''"

text \<open>
  \<^verbatim>\<open>generate_manifest\<close>. The snapshot is given by the name of the file and by its
  content, \<open>None\<close> when the path does not exist. The manifest is the dictionary of
  the source, as the list of its items in insertion order.
\<close>

definition generate_manifest ::
  "(byte list \<Rightarrow> pyval option) \<Rightarrow> datetime \<Rightarrow> string \<Rightarrow> byte list option
   \<Rightarrow> string option \<Rightarrow> string option \<Rightarrow> int option \<Rightarrow> py_error + (string \<times> pyval) list" where
  "generate_manifest load now name file era_opt block_hash_opt block_height_opt =
     (case file of
        None \<Rightarrow> Inl FileNotFoundError
      | Some content \<Rightarrow>
          let size_bytes = int (length content)
          in (case parse_cbor_header load content size_bytes of
                Inl e \<Rightarrow> Inl e
              | Inr header \<Rightarrow>
                  let (era, block_height, block_hash, governance_present) =
                        (case header of
                           None \<Rightarrow>
                             (case derive_from_filename name of
                                (slot_from_name, hash_from_name) \<Rightarrow>
                                  (PStr (str_or era_opt ''conway''),
                                   PInt (int_or block_height_opt (int_or slot_from_name 1)),
                                   PStr (lower (str_or block_hash_opt
                                                  (str_or hash_from_name ''unknown''))),
                                   False))
                         | Some h \<Rightarrow>
                             (hdr_era h, hdr_block_height h, PStr (hdr_block_hash h),
                              hdr_governance_section_present h));
                      sha256 = compute_sha256 content (16 * 1024 * 1024)
                  in Inr [(''magic'', PStr ''CARDANO_SNAPSHOT''),
                          (''version'', PStr ''1.0.0''),
                          (''era'', era),
                          (''block_height'', block_height),
                          (''block_hash'', block_hash),
                          (''sha256'', PStr sha256),
                          (''created_at'', PStr (strftime now)),
                          (''size_bytes'', PInt size_bytes),
                          (''governance_section_present'', PBool governance_present)]))"

section \<open>Vocabulary of the properties\<close>




text \<open>
  A declared count of the header, read as the data model of the format has it: an
  integer, 0 when the key is absent; no number when the value is of another type.
\<close>

definition declared_count :: "(pyval \<times> pyval) list \<Rightarrow> int \<Rightarrow> int option" where
  "declared_count h k =
     (case dict_lookup h k of
        None \<Rightarrow> Some 0
      | Some (PInt n) \<Rightarrow> Some n
      | Some _ \<Rightarrow> None)"

text \<open>
  The same count under the check that the code applies to it: it is positive when
  it is an integer (or a boolean, Python's \<^verbatim>\<open>True\<close> being 1) greater than 0, and not
  positive when it is absent, \<^verbatim>\<open>null\<close> or empty.
\<close>

definition is_positive_count :: "(pyval \<times> pyval) list \<Rightarrow> int \<Rightarrow> bool" where
  "is_positive_count h k =
     (case dict_lookup h k of
        Some (PInt n) \<Rightarrow> 0 < n
      | Some (PBool b) \<Rightarrow> b
      | _ \<Rightarrow> False)"




text \<open>A clock reading for the examples: 2026-01-02 03:04:59 UTC.\<close>

definition example_now :: datetime where
  "example_now =
     \<lparr>dt_year = 2026, dt_month = 1, dt_day = 2, dt_hour = 3, dt_minute = 4, dt_second = 59\<rparr>"

subsection \<open>Example snapshot files\<close>

text \<open>
  Small files, byte by byte. The header map \<^verbatim>\<open>{0: "conway", 1: 1, 2: h'aa'}\<close> is
  \<^verbatim>\<open>a3 00 66 63 6f 6e 77 61 79 01 01 02 41 aa\<close>; \<^verbatim>\<open>82\<close>, \<^verbatim>\<open>83\<close> and \<^verbatim>\<open>84\<close> open an
  array of two, three and four elements, \<^verbatim>\<open>80\<close> is the empty array of records.
\<close>

definition example_header :: "(pyval \<times> pyval) list" where
  "example_header = [(PInt 0, PStr ''conway''), (PInt 1, PInt 1), (PInt 2, PBytes [0xaa])]"

text \<open>\<^verbatim>\<open>[1, {0: "conway", 1: 1, 2: 7}]\<close>: the block hash is an integer.\<close>

definition snapshot_int_hash :: "byte list" where
  "snapshot_int_hash =
     [0x82, 0x01, 0xa3, 0x00, 0x66, 0x63, 0x6f, 0x6e, 0x77, 0x61, 0x79, 0x01, 0x01, 0x02, 0x07]"

text \<open>\<^verbatim>\<open>[1, {0: "conway", 1: 1, 2: h'aa', 4: "x"}]\<close>: a declared count is a text string.\<close>

definition snapshot_text_count :: "byte list" where
  "snapshot_text_count =
     [0x82, 0x01, 0xa4, 0x00, 0x66, 0x63, 0x6f, 0x6e, 0x77, 0x61, 0x79, 0x01, 0x01, 0x02, 0x41, 0xaa,
      0x04, 0x61, 0x78]"

text \<open>\<^verbatim>\<open>[1, header]\<close> and \<^verbatim>\<open>[1, header, [], 0]\<close>: two and four elements at the top.\<close>

definition snapshot_two_elements :: "byte list" where
  "snapshot_two_elements =
     [0x82, 0x01, 0xa3, 0x00, 0x66, 0x63, 0x6f, 0x6e, 0x77, 0x61, 0x79, 0x01, 0x01, 0x02, 0x41, 0xaa]"

definition snapshot_four_elements :: "byte list" where
  "snapshot_four_elements =
     [0x84, 0x01, 0xa3, 0x00, 0x66, 0x63, 0x6f, 0x6e, 0x77, 0x61, 0x79, 0x01, 0x01, 0x02, 0x41, 0xaa,
      0x80, 0x00]"

text \<open>\<^verbatim>\<open>[2, header, []]\<close>: version 2.\<close>

definition snapshot_version_two :: "byte list" where
  "snapshot_version_two =
     [0x83, 0x02, 0xa3, 0x00, 0x66, 0x63, 0x6f, 0x6e, 0x77, 0x61, 0x79, 0x01, 0x01, 0x02, 0x41, 0xaa,
      0x80]"

text \<open>\<^verbatim>\<open>[1, {0: "conway", 1: 1, 2: h'11223344'}, []]\<close>: a block hash of four bytes.\<close>

definition snapshot_short_hash :: "byte list" where
  "snapshot_short_hash =
     [0x83, 0x01, 0xa3, 0x00, 0x66, 0x63, 0x6f, 0x6e, 0x77, 0x61, 0x79, 0x01, 0x01, 0x02, 0x44,
      0x11, 0x22, 0x33, 0x44, 0x80]"

text \<open>
  \<^verbatim>\<open>[1, {0: "conway", 1: 7, 2: h'11223344', 3: 2, 4: 3, 5: 1}, [[4]]]\<close>: a header
  with its declared counts, and the end marker as the only record.
\<close>

definition snapshot_with_counts :: "byte list" where
  "snapshot_with_counts =
     [0x83, 0x01, 0xa6, 0x00, 0x66, 0x63, 0x6f, 0x6e, 0x77, 0x61, 0x79, 0x01, 0x07, 0x02, 0x44,
      0x11, 0x22, 0x33, 0x44, 0x03, 0x02, 0x04, 0x03, 0x05, 0x01, 0x81, 0x81, 0x04]"

definition counts_header :: "(pyval \<times> pyval) list" where
  "counts_header =
     [(PInt 0, PStr ''conway''), (PInt 1, PInt 7), (PInt 2, PBytes [0x11, 0x22, 0x33, 0x44]),
      (PInt 3, PInt 2), (PInt 4, PInt 3), (PInt 5, PInt 1)]"

section \<open>Two digests of the standard\<close>

text \<open>
  The digests of the empty message and of \<^verbatim>\<open>abc\<close>, as FIPS 180-4 and
  \<^verbatim>\<open>hashlib.sha256(...).hexdigest()\<close> give them, computed from the definitions above.
\<close>

lemma sha256_empty_message:
  "bytes_hex (sha256 [])
   = ''e3b0c44298fc1c149afbf4c8996fb92427ae41e4649b934ca495991b7852b855''"
  by code_simp

lemma sha256_abc:
  "bytes_hex (sha256 [0x61, 0x62, 0x63])
   = ''ba7816bf8f01cfea414140de5dae2223b00361a396177a9cb410ff61f20015ad''"
  by code_simp

section \<open>The integrity hash does not depend on the chunk size\<close>

text \<open>
  With a positive chunk size the loop feeds the hash object every byte of the file,
  in order: by induction on the number of unread bytes.
\<close>

lemma read_loop_appends:
  "0 < n \<Longrightarrow> read_loop n (Hasher m) rest = Hasher (m @ rest)"
proof (induction rest arbitrary: m rule: length_induct)
  case (1 rest)
  show ?case
  proof (cases "rest = []")
    case True
    then show ?thesis
      by (subst read_loop.simps) (simp add: f_read_def)
  next
    case False
    with \<open>0 < n\<close> have pos: "take (nat n) rest \<noteq> []" by simp
    from False \<open>0 < n\<close> have "length (drop (nat n) rest) < length rest" by simp
    with "1.IH" \<open>0 < n\<close>
    have "read_loop n (Hasher (m @ take (nat n) rest)) (drop (nat n) rest)
          = Hasher ((m @ take (nat n) rest) @ drop (nat n) rest)"
      by blast
    with pos \<open>0 < n\<close> show ?thesis
      by (subst read_loop.simps) (simp add: f_read_def)
  qed
qed


lemma compute_sha256_eq:
  "0 < n \<Longrightarrow> compute_sha256 content n = bytes_hex (sha256 content)"
  by (simp add: compute_sha256_def hasher_new_def read_loop_appends)




section \<open>The paths through the manifest builder\<close>

text \<open>
  \<^verbatim>\<open>parse_cbor_header\<close> has three outcomes, and \<^verbatim>\<open>generate_manifest\<close> one shape of
  result for each: an exception passes through, \<^verbatim>\<open>None\<close> selects the fallback, a
  header supplies the fields.
\<close>

lemma parse_cbor_header_skipped:
  "64 * 1024 * 1024 < size_bytes \<Longrightarrow> parse_cbor_header load content size_bytes = Inr None"
  by (simp add: parse_cbor_header_def)

lemma parse_cbor_header_load_fails:
  "load content = None \<Longrightarrow> parse_cbor_header load content size_bytes = Inr None"
  by (simp add: parse_cbor_header_def)

lemma parse_cbor_header_loaded:
  "size_bytes \<le> 64 * 1024 * 1024 \<Longrightarrow> load content = Some data
   \<Longrightarrow> parse_cbor_header load content size_bytes = parse_loaded data"
  by (simp add: parse_cbor_header_def)


lemma generate_manifest_error:
  "parse_cbor_header load content (int (length content)) = Inl err
   \<Longrightarrow> generate_manifest load now name (Some content) e bh ht = Inl err"
  by (simp add: generate_manifest_def)

lemma generate_manifest_fallback:
  "parse_cbor_header load content (int (length content)) = Inr None \<Longrightarrow>
   generate_manifest load now name (Some content) e bh ht =
     Inr [(''magic'', PStr ''CARDANO_SNAPSHOT''),
          (''version'', PStr ''1.0.0''),
          (''era'', PStr (str_or e ''conway'')),
          (''block_height'', PInt (int_or ht (int_or (fst (derive_from_filename name)) 1))),
          (''block_hash'',
           PStr (lower (str_or bh (str_or (snd (derive_from_filename name)) ''unknown'')))),
          (''sha256'', PStr (bytes_hex (sha256 content))),
          (''created_at'', PStr (strftime now)),
          (''size_bytes'', PInt (int (length content))),
          (''governance_section_present'', PBool False)]"
  by (simp add: generate_manifest_def compute_sha256_eq split: prod.split)

lemma generate_manifest_decoded:
  "parse_cbor_header load content (int (length content)) = Inr (Some h) \<Longrightarrow>
   generate_manifest load now name (Some content) e bh ht =
     Inr [(''magic'', PStr ''CARDANO_SNAPSHOT''),
          (''version'', PStr ''1.0.0''),
          (''era'', hdr_era h),
          (''block_height'', hdr_block_height h),
          (''block_hash'', PStr (hdr_block_hash h)),
          (''sha256'', PStr (bytes_hex (sha256 content))),
          (''created_at'', PStr (strftime now)),
          (''size_bytes'', PInt (int (length content))),
          (''governance_section_present'', PBool (hdr_governance_section_present h))]"
  by (simp add: generate_manifest_def compute_sha256_eq)

section \<open>What the header parser accepts\<close>

lemma parse_loaded_envelope:
  "parse_loaded (PList (v # PDict d # recs)) =
     (if \<not> truthy (dict_get d 0) \<or> dict_get d 1 = PNone \<or> \<not> truthy (dict_get d 2)
      then Inr None
      else (case py_hex (dict_get d 2) of
              Inl e \<Rightarrow> Inl e
            | Inr block_hash \<Rightarrow>
                (case governance_present_of (dict_get_default d 4 (PInt 0))
                        (dict_get_default d 5 (PInt 0)) of
                   Inl e \<Rightarrow> Inl e
                 | Inr g \<Rightarrow>
                     Inr (Some \<lparr>hdr_version = v, hdr_era = dict_get d 0,
                                hdr_block_height = dict_get d 1, hdr_block_hash = block_hash,
                                hdr_governance_section_present = g\<rparr>))))"
  by (simp add: parse_loaded_def Let_def)

lemma parse_loaded_not_list: "(\<And>xs. data \<noteq> PList xs) \<Longrightarrow> parse_loaded data = Inr None"
  by (cases data) (auto simp: parse_loaded_def)

lemma parse_loaded_short: "length xs < 2 \<Longrightarrow> parse_loaded (PList xs) = Inr None"
  by (simp add: parse_loaded_def)

lemma parse_loaded_not_dict:
  "(\<And>d. hdr \<noteq> PDict d) \<Longrightarrow> parse_loaded (PList (v # hdr # recs)) = Inr None"
  by (cases hdr) (auto simp: parse_loaded_def)

lemma parse_loaded_Some_shape:
  assumes "parse_loaded data = Inr (Some h)"
  shows "\<exists>v d recs. data = PList (v # PDict d # recs)"
proof -
  from assms obtain xs where xs: "data = PList xs"
    using parse_loaded_not_list [of data] by fastforce
  with assms have "\<not> length xs < 2"
    using parse_loaded_short [of xs] by auto
  then obtain v hdr recs where l: "xs = v # hdr # recs"
    by (cases xs; cases "tl xs") auto
  with assms xs obtain d where "hdr = PDict d"
    using parse_loaded_not_dict [of hdr v recs] by fastforce
  with xs l show ?thesis by simp
qed

lemma parse_loaded_records:
  "parse_loaded (PList (v # hdr # recs)) = parse_loaded (PList (v # hdr # recs'))"
  by (simp add: parse_loaded_def)


lemma dict_get_missing: "dict_lookup d k = None \<Longrightarrow> dict_get d k = PNone"
  by (simp add: dict_get_def)


lemma governance_present_of_counts:
  assumes "declared_count d 4 = Some g" and "declared_count d 5 = Some p"
  shows "governance_present_of (dict_get_default d 4 (PInt 0)) (dict_get_default d 5 (PInt 0))
         = Inr (0 < g \<or> 0 < p)"
proof -
  have a: "py_gt_zero (py_or (dict_get_default d 4 (PInt 0)) (PInt 0)) = Inr (0 < g)"
    using assms(1)
    by (auto simp: declared_count_def dict_get_default_def py_or_def
        split: option.splits pyval.splits)
  have b: "py_gt_zero (py_or (dict_get_default d 5 (PInt 0)) (PInt 0)) = Inr (0 < p)"
    using assms(2)
    by (auto simp: declared_count_def dict_get_default_def py_or_def
        split: option.splits pyval.splits)
  show ?thesis
    by (cases "0 < g") (simp_all add: governance_present_of_def a b)
qed




lemma parse_loaded_Some_fields:
  assumes "parse_loaded (PList (v # PDict d # recs)) = Inr (Some h)"
  shows "hdr_version h = v" and "hdr_era h = dict_get d 0" and "hdr_block_height h = dict_get d 1"
    and "\<exists>bs. dict_get d 2 = PBytes bs \<and> bs \<noteq> [] \<and> hdr_block_hash h = bytes_hex bs"
    and "governance_present_of (dict_get_default d 4 (PInt 0)) (dict_get_default d 5 (PInt 0))
         = Inr (hdr_governance_section_present h)"
    and "truthy (dict_get d 0)" and "dict_get d 1 \<noteq> PNone"
  using assms
  by (auto simp: parse_loaded_envelope split: if_splits sum.splits elim: py_hex.elims)

subsection \<open>The example files, decoded\<close>

lemma cbor_load_int_hash:
  "cbor_load snapshot_int_hash =
     Some (PList [PInt 1, PDict [(PInt 0, PStr ''conway''), (PInt 1, PInt 1), (PInt 2, PInt 7)]])"
  by code_simp

lemma cbor_load_text_count:
  "cbor_load snapshot_text_count =
     Some (PList [PInt 1, PDict [(PInt 0, PStr ''conway''), (PInt 1, PInt 1),
                                 (PInt 2, PBytes [0xaa]), (PInt 4, PStr ''x'')]])"
  by code_simp

lemma cbor_load_two_elements:
  "cbor_load snapshot_two_elements = Some (PList [PInt 1, PDict example_header])"
  unfolding example_header_def by code_simp

lemma cbor_load_four_elements:
  "cbor_load snapshot_four_elements = Some (PList [PInt 1, PDict example_header, PList [], PInt 0])"
  unfolding example_header_def by code_simp



lemma parse_loaded_example_header:
  "parse_loaded (PList (v # PDict example_header # recs)) =
     Inr (Some \<lparr>hdr_version = v, hdr_era = PStr ''conway'', hdr_block_height = PInt 1,
                hdr_block_hash = ''aa'', hdr_governance_section_present = False\<rparr>)"
  by (simp add: parse_loaded_envelope example_header_def dict_get_def dict_get_default_def
      governance_present_of_def py_or_def bytes_hex_def hex_byte_def hexdigit_def)

lemma small_sizes:
  "int (length snapshot_two_elements) \<le> 64 * 1024 * 1024"
  "int (length snapshot_four_elements) \<le> 64 * 1024 * 1024"
  "int (length snapshot_version_two) \<le> 64 * 1024 * 1024"
  "int (length snapshot_short_hash) \<le> 64 * 1024 * 1024"
  by (simp_all add: snapshot_two_elements_def snapshot_four_elements_def
      snapshot_version_two_def snapshot_short_hash_def)

lemma parse_cbor_header_cbor_load:
  "int (length content) \<le> 64 * 1024 * 1024 \<Longrightarrow> cbor_load content = Some data
   \<Longrightarrow> parse_cbor_header cbor_load content (int (length content)) = parse_loaded data"
  by (rule parse_cbor_header_loaded)

lemma parse_four_elements:
  "parse_cbor_header cbor_load snapshot_four_elements (int (length snapshot_four_elements)) =
     Inr (Some \<lparr>hdr_version = PInt 1, hdr_era = PStr ''conway'', hdr_block_height = PInt 1,
                hdr_block_hash = ''aa'', hdr_governance_section_present = False\<rparr>)"
  by (simp only: parse_cbor_header_cbor_load [OF small_sizes(2) cbor_load_four_elements]
      parse_loaded_example_header)


lemma cbor_load_with_counts:
  "cbor_load snapshot_with_counts
   = Some (PList [PInt 1, PDict counts_header, PList [PList [PInt 4]]])"
  unfolding counts_header_def by code_simp

lemma cbor_load_empty: "cbor_load [] = None"
  by (simp add: cbor_load_def)

lemma parse_empty_file: "parse_cbor_header cbor_load [] (int (length ([] :: byte list))) = Inr None"
  by (simp add: parse_cbor_header_def cbor_load_empty)

lemma parse_with_counts:
  "parse_cbor_header cbor_load snapshot_with_counts (int (length snapshot_with_counts)) =
     Inr (Some \<lparr>hdr_version = PInt 1, hdr_era = PStr ''conway'', hdr_block_height = PInt 7,
                hdr_block_hash = ''11223344'', hdr_governance_section_present = True\<rparr>)"
proof -
  have "int (length snapshot_with_counts) \<le> 64 * 1024 * 1024"
    by (simp add: snapshot_with_counts_def)
  from parse_cbor_header_cbor_load [OF this cbor_load_with_counts] show ?thesis
    by (simp add: parse_loaded_envelope counts_header_def dict_get_def dict_get_default_def
      governance_present_of_def py_or_def bytes_hex_def hex_byte_def hexdigit_def)
qed

section \<open>Lower case and the file name\<close>

lemma lower_char_idem: "lower_char (lower_char c) = lower_char c"
  by (simp add: lower_char_def Let_def)

lemma lower_idem: "lower (lower s) = lower s"
  by (simp add: lower_def lower_char_idem)

lemma derive_from_filename_hash_lower:
  "derive_from_filename name = (a, Some s) \<Longrightarrow> lower s = s"
  by (auto simp: derive_from_filename_def Let_def lower_idem split: if_splits option.splits)

lemma derive_5_AB: "derive_from_filename ''5.AB.cbor'' = (Some 5, Some ''ab'')"
  by code_simp

lemma derive_snapshot: "derive_from_filename ''snapshot.cbor'' = (None, None)"
  by code_simp

section \<open>Malformed header content\<close>

text \<open>
  C1 (the code departs from the claim). Header parsing that fails on the type of a
  field is not routed to the fallback. On the 15-byte file \<open>snapshot_int_hash\<close>,
  whose block hash is the integer 7, \<^verbatim>\<open>block_hash_bytes.hex()\<close> raises
  \<^verbatim>\<open>AttributeError\<close>; on \<open>snapshot_text_count\<close>, whose declared count is the text
  \<^verbatim>\<open>"x"\<close>, the comparison with 0 raises \<^verbatim>\<open>TypeError\<close>. Neither is caught, and
  \<^verbatim>\<open>generate_manifest\<close> returns no manifest.
\<close>

theorem generate_manifest_raises_on_mistyped_header:
  "generate_manifest cbor_load example_now ''snapshot.cbor'' (Some snapshot_int_hash) None None None
     = Inl AttributeError
   \<and> generate_manifest cbor_load example_now ''snapshot.cbor'' (Some snapshot_text_count)
       None None None
     = Inl TypeError"
proof -
  have "parse_cbor_header cbor_load snapshot_int_hash (int (length snapshot_int_hash))
        = Inl AttributeError"
    by (simp add: parse_cbor_header_def cbor_load_int_hash parse_loaded_def dict_get_def
        dict_get_default_def) (simp add: snapshot_int_hash_def)
  moreover
  have "parse_cbor_header cbor_load snapshot_text_count (int (length snapshot_text_count))
        = Inl TypeError"
    by (simp add: parse_cbor_header_def cbor_load_text_count parse_loaded_def dict_get_def
        dict_get_default_def governance_present_of_def py_or_def) (simp add: snapshot_text_count_def)
  ultimately show ?thesis
    by (simp add: generate_manifest_error)
qed

section \<open>The shape of the envelope\<close>

text \<open>
  Against C4 as stated: a top-level array of two elements and one of four elements
  are both decoded, and their header is returned.
\<close>

theorem short_and_long_envelopes_counterexample:
  "cbor_load snapshot_two_elements = Some (PList [PInt 1, PDict example_header])
   \<and> parse_cbor_header cbor_load snapshot_two_elements (int (length snapshot_two_elements)) =
       Inr (Some \<lparr>hdr_version = PInt 1, hdr_era = PStr ''conway'', hdr_block_height = PInt 1,
                  hdr_block_hash = ''aa'', hdr_governance_section_present = False\<rparr>)
   \<and> cbor_load snapshot_four_elements
       = Some (PList [PInt 1, PDict example_header, PList [], PInt 0])
   \<and> parse_cbor_header cbor_load snapshot_four_elements (int (length snapshot_four_elements)) =
       Inr (Some \<lparr>hdr_version = PInt 1, hdr_era = PStr ''conway'', hdr_block_height = PInt 1,
                  hdr_block_hash = ''aa'', hdr_governance_section_present = False\<rparr>)"
  by (simp only: parse_cbor_header_cbor_load [OF small_sizes(1) cbor_load_two_elements]
      parse_four_elements cbor_load_two_elements cbor_load_four_elements
      parse_loaded_example_header simp_thms)

text \<open>
  C4, amended. A header is obtained only from a top-level list whose second element
  is a map; a value that is no list, and a list of fewer than two elements, give
  none. Elements after the second are never looked at, so the result for a list of
  two elements and for any longer list with the same first two is the same.
\<close>

theorem envelope_needs_two_elements:
  "(parse_cbor_header load content size_bytes = Inr (Some h)
      \<longrightarrow> (\<exists>v d recs. load content = Some (PList (v # PDict d # recs))))
   \<and> ((\<forall>xs. data \<noteq> PList xs) \<longrightarrow> parse_loaded data = Inr None)
   \<and> (length xs < 2 \<longrightarrow> parse_loaded (PList xs) = Inr None)
   \<and> parse_loaded (PList (v # hdr # recs)) = parse_loaded (PList [v, hdr])"
proof -
  have "\<exists>v d recs. load content = Some (PList (v # PDict d # recs))"
    if "parse_cbor_header load content size_bytes = Inr (Some h)"
  proof -
    from that obtain data' where "load content = Some data'" "parse_loaded data' = Inr (Some h)"
      by (auto simp: parse_cbor_header_def split: if_splits option.splits)
    then show ?thesis
      using parse_loaded_Some_shape by blast
  qed
  moreover have "parse_loaded (PList (v # hdr # recs)) = parse_loaded (PList [v, hdr])"
    by (rule parse_loaded_records)
  ultimately show ?thesis
    using parse_loaded_not_list [of data] parse_loaded_short [of xs] by blast
qed

theorem envelope_needs_two_elements_witness:
  "(\<exists>v d recs. cbor_load snapshot_four_elements = Some (PList (v # PDict d # recs)))
   \<and> parse_loaded (PInt 5) = Inr None
   \<and> parse_loaded (PList [PInt 1]) = Inr None
   \<and> parse_loaded (PList [PInt 1, PDict example_header, PList [], PInt 0])
       = parse_loaded (PList [PInt 1, PDict example_header])"
  using envelope_needs_two_elements
    [of cbor_load snapshot_four_elements "int (length snapshot_four_elements)"
        "\<lparr>hdr_version = PInt 1, hdr_era = PStr ''conway'', hdr_block_height = PInt 1,
          hdr_block_hash = ''aa'', hdr_governance_section_present = False\<rparr>"
        "PInt 5" "[PInt 1]" "PInt 1" "PDict example_header" "[PList [], PInt 0]"]
    parse_four_elements
  by simp

section \<open>The version field\<close>





section \<open>The required header fields\<close>






section \<open>Which source supplies a field\<close>




section \<open>The governance flag\<close>

lemma py_gt_zero_default:
  "py_gt_zero (py_or (dict_get_default d k (PInt 0)) (PInt 0)) = Inr b
   \<Longrightarrow> b = is_positive_count d k"
  by (cases "dict_lookup d k"; cases "the (dict_lookup d k)")
     (auto simp: dict_get_default_def py_or_def is_positive_count_def split: if_splits)

lemma governance_present_of_positive:
  assumes "governance_present_of (dict_get_default d 4 (PInt 0)) (dict_get_default d 5 (PInt 0))
           = Inr g"
  shows "g = (is_positive_count d 4 \<or> is_positive_count d 5)"
proof (cases "py_gt_zero (py_or (dict_get_default d 4 (PInt 0)) (PInt 0))")
  case (Inl err)
  with assms show ?thesis by (simp add: governance_present_of_def)
next
  case (Inr b)
  note b = py_gt_zero_default [OF Inr]
  show ?thesis
  proof (cases b)
    case True
    with Inr assms b show ?thesis by (simp add: governance_present_of_def)
  next
    case False
    with Inr assms have "py_gt_zero (py_or (dict_get_default d 5 (PInt 0)) (PInt 0)) = Inr g"
      by (simp add: governance_present_of_def)
    from py_gt_zero_default [OF this] False b show ?thesis by simp
  qed
qed

text \<open>
  C9. When the header is decoded and its declared counts of governance actions and
  parameter sets are integers, a missing one counting as 0, the manifest's
  \<^verbatim>\<open>governance_section_present\<close> is true exactly when one of the two is positive. In
  every manifest of the fallback path it is false. (For a decoded header of any
  content the flag is true exactly when one of the two counts is positive in the
  sense of \<open>is_positive_count\<close>.)
\<close>

theorem governance_section_present_value:
  assumes "generate_manifest load now name (Some content) e bh ht = Inr m"
  shows "(parse_cbor_header load content (int (length content)) = Inr None
          \<longrightarrow> map_of m ''governance_section_present'' = Some (PBool False))
       \<and> (parse_cbor_header load content (int (length content)) \<noteq> Inr None
            \<and> load content = Some (PList (v # PDict d # recs))
            \<and> declared_count d 4 = Some g \<and> declared_count d 5 = Some p
          \<longrightarrow> map_of m ''governance_section_present'' = Some (PBool (0 < g \<or> 0 < p)))
       \<and> (parse_cbor_header load content (int (length content)) \<noteq> Inr None
            \<and> load content = Some (PList (v # PDict d # recs))
          \<longrightarrow> map_of m ''governance_section_present''
              = Some (PBool (is_positive_count d 4 \<or> is_positive_count d 5)))"
proof (cases "parse_cbor_header load content (int (length content))")
  case (Inl err)
  with assms show ?thesis
    by (simp add: generate_manifest_error)
next
  case (Inr r)
  show ?thesis
  proof (cases r)
    case None
    with Inr assms show ?thesis
      by (auto simp: generate_manifest_fallback)
  next
    case (Some h)
    have "map_of m ''governance_section_present''
            = Some (PBool (is_positive_count d 4 \<or> is_positive_count d 5))
          \<and> (declared_count d 4 = Some g \<and> declared_count d 5 = Some p
              \<longrightarrow> map_of m ''governance_section_present'' = Some (PBool (0 < g \<or> 0 < p)))"
      if l: "load content = Some (PList (v # PDict d # recs))"
    proof -
      from Inr Some l have "parse_loaded (PList (v # PDict d # recs)) = Inr (Some h)"
        by (auto simp: parse_cbor_header_def split: if_splits)
      note gov = parse_loaded_Some_fields(5) [OF this]
      from assms Inr Some
      have m: "map_of m ''governance_section_present''
               = Some (PBool (hdr_governance_section_present h))"
        by (auto simp: generate_manifest_decoded)
      from gov have "hdr_governance_section_present h = (0 < g \<or> 0 < p)"
        if "declared_count d 4 = Some g" "declared_count d 5 = Some p"
        using that by (simp add: governance_present_of_counts)
      with m governance_present_of_positive [OF gov] show ?thesis
        by simp
    qed
    with Inr Some show ?thesis by auto
  qed
qed

theorem governance_section_present_value_witness:
  "(\<exists>m. generate_manifest cbor_load example_now ''snapshot.cbor'' (Some snapshot_with_counts)
           None None None = Inr m
        \<and> map_of m ''governance_section_present'' = Some (PBool True))
   \<and> (\<exists>m. generate_manifest cbor_load example_now ''snapshot.cbor'' (Some snapshot_two_elements)
           None None None = Inr m
        \<and> map_of m ''governance_section_present'' = Some (PBool False))
   \<and> (\<exists>m. generate_manifest cbor_load example_now ''snapshot.cbor'' (Some [])
           None None None = Inr m
        \<and> map_of m ''governance_section_present'' = Some (PBool False))"
proof -
  have p2: "parse_cbor_header cbor_load snapshot_two_elements (int (length snapshot_two_elements))
        = Inr (Some \<lparr>hdr_version = PInt 1, hdr_era = PStr ''conway'', hdr_block_height = PInt 1,
                  hdr_block_hash = ''aa'', hdr_governance_section_present = False\<rparr>)"
    by (simp only: parse_cbor_header_cbor_load [OF small_sizes(1) cbor_load_two_elements]
        parse_loaded_example_header)
  obtain m1 where m1: "generate_manifest cbor_load example_now ''snapshot.cbor''
      (Some snapshot_with_counts) None None None = Inr m1"
    by (simp add: generate_manifest_decoded [OF parse_with_counts])
  obtain m2 where m2: "generate_manifest cbor_load example_now ''snapshot.cbor''
      (Some snapshot_two_elements) None None None = Inr m2"
    by (simp add: generate_manifest_decoded [OF p2])
  obtain m3 where m3: "generate_manifest cbor_load example_now ''snapshot.cbor'' (Some [])
      None None None = Inr m3"
    by (simp add: generate_manifest_fallback [OF parse_empty_file])
  have "map_of m1 ''governance_section_present'' = Some (PBool True)"
    using governance_section_present_value
      [OF m1, of "PInt 1" counts_header "[PList [PList [PInt 4]]]" 3 1]
      parse_with_counts cbor_load_with_counts
    by (simp add: counts_header_def declared_count_def)
  moreover
  have "map_of m2 ''governance_section_present'' = Some (PBool False)"
    using governance_section_present_value [OF m2, of "PInt 1" example_header "[]" 0 0]
      p2 cbor_load_two_elements
    by (simp add: example_header_def declared_count_def)
  moreover
  have "map_of m3 ''governance_section_present'' = Some (PBool False)"
    using governance_section_present_value [OF m3] parse_empty_file
    by simp
  ultimately show ?thesis
    using m1 m2 m3 by simp
qed

section \<open>The defaults of the fallback path\<close>

lemma int_or_zero: "int_or (Some 0) d = int_or None d"
  by (simp add: int_or_def)

lemma str_or_empty: "str_or (Some []) d = str_or None d"
  by (simp add: str_or_def)

lemma generate_manifest_zero_height:
  "generate_manifest load now name file e bh (Some 0) = generate_manifest load now name file e bh None"
  unfolding generate_manifest_def int_or_zero by (rule refl)

lemma generate_manifest_empty_hash:
  "generate_manifest load now name file e (Some []) ht = generate_manifest load now name file e None ht"
  unfolding generate_manifest_def str_or_empty by (rule refl)

text \<open>
  C10. In the fallback path a manifest is always returned. Without an era override
  the era is \<^verbatim>\<open>conway\<close>; with neither an override nor a value from the file name
  the block height is 1 and the block hash is the string \<^verbatim>\<open>unknown\<close>, which is no
  hexadecimal number. Defaulting goes by truth value: an override of height 0 or an
  empty hash gives the same manifest as no override, so the value from the file
  name, or else the default, takes its place (and so does the default when the
  file name gives height 0 or an empty hash).
\<close>

theorem fallback_defaults:
  assumes "parse_cbor_header load content (int (length content)) = Inr None"
  shows "\<exists>m. generate_manifest load now name (Some content) era_opt block_hash_opt block_height_opt
              = Inr m
           \<and> (era_opt = None \<or> era_opt = Some [] \<longrightarrow> map_of m ''era'' = Some (PStr ''conway''))
           \<and> ((block_height_opt = None \<or> block_height_opt = Some 0)
                \<and> (fst (derive_from_filename name) = None \<or> fst (derive_from_filename name) = Some 0)
               \<longrightarrow> map_of m ''block_height'' = Some (PInt 1))
           \<and> ((block_height_opt = None \<or> block_height_opt = Some 0)
                \<and> fst (derive_from_filename name) = Some n \<and> n \<noteq> 0
               \<longrightarrow> map_of m ''block_height'' = Some (PInt n))
           \<and> ((block_hash_opt = None \<or> block_hash_opt = Some [])
                \<and> (snd (derive_from_filename name) = None \<or> snd (derive_from_filename name) = Some [])
               \<longrightarrow> map_of m ''block_hash'' = Some (PStr ''unknown''))
           \<and> ((block_hash_opt = None \<or> block_hash_opt = Some [])
                \<and> snd (derive_from_filename name) = Some s \<and> s \<noteq> []
               \<longrightarrow> map_of m ''block_hash'' = Some (PStr s))
           \<and> \<not> list_all is_hex_char ''unknown''
           \<and> generate_manifest load now name (Some content) era_opt block_hash_opt (Some 0)
               = generate_manifest load now name (Some content) era_opt block_hash_opt None
           \<and> generate_manifest load now name (Some content) era_opt (Some []) block_height_opt
               = generate_manifest load now name (Some content) era_opt None block_height_opt"
proof -
  have low: "lower s = s" if "snd (derive_from_filename name) = Some s"
    using that derive_from_filename_hash_lower [of name "fst (derive_from_filename name)" s]
    by (cases "derive_from_filename name") simp
  have u: "lower ''unknown'' = ''unknown''"
    by (simp add: lower_def lower_char_def)
  have nh: "\<not> list_all is_hex_char ''unknown''"
    by (simp add: is_hex_char_def)
  show ?thesis
    unfolding generate_manifest_fallback [OF assms] generate_manifest_zero_height
      generate_manifest_empty_hash
    using low u nh by (auto simp: str_or_def int_or_def)
qed

theorem fallback_defaults_witness:
  "(\<exists>m. generate_manifest cbor_load example_now ''snapshot.cbor'' (Some []) (Some []) (Some [])
           (Some 0) = Inr m
        \<and> map_of m ''era'' = Some (PStr ''conway'')
        \<and> map_of m ''block_height'' = Some (PInt 1)
        \<and> map_of m ''block_hash'' = Some (PStr ''unknown''))
   \<and> (\<exists>m. generate_manifest cbor_load example_now ''5.AB.cbor'' (Some []) None (Some [])
           (Some 0) = Inr m
        \<and> map_of m ''era'' = Some (PStr ''conway'')
        \<and> map_of m ''block_height'' = Some (PInt 5)
        \<and> map_of m ''block_hash'' = Some (PStr ''ab''))"
proof -
  have "\<exists>m. generate_manifest cbor_load example_now ''snapshot.cbor'' (Some []) (Some []) (Some [])
           (Some 0) = Inr m
        \<and> map_of m ''era'' = Some (PStr ''conway'')
        \<and> map_of m ''block_height'' = Some (PInt 1)
        \<and> map_of m ''block_hash'' = Some (PStr ''unknown'')"
    using fallback_defaults [OF parse_empty_file, of example_now "''snapshot.cbor''" "Some []"
        "Some []" "Some 0"]
    by (simp add: derive_snapshot) blast
  moreover
  have "\<exists>m. generate_manifest cbor_load example_now ''5.AB.cbor'' (Some []) None (Some [])
           (Some 0) = Inr m
        \<and> map_of m ''era'' = Some (PStr ''conway'')
        \<and> map_of m ''block_height'' = Some (PInt 5)
        \<and> map_of m ''block_hash'' = Some (PStr ''ab'')"
    using fallback_defaults [OF parse_empty_file, of example_now "''5.AB.cbor''" None
        "Some []" "Some 0" 5 "''ab''"]
    by (simp add: derive_5_AB) blast
  ultimately show ?thesis by blast
qed

section \<open>The file name convention\<close>


lemma split_on_no_sep: "sep \<notin> set a \<Longrightarrow> split_on sep a = [a]"
  by (induction a) auto












section \<open>The fields of the manifest\<close>























end
